theory Spec2Isabelle
  imports Main
begin

section \<open>The syntax tree of \<^verbatim>\<open>ast\<close> as far as \<^verbatim>\<open>magic.py\<close> reads it\<close>

text \<open>
  \<^verbatim>\<open>lib/streamlit/magic.py\<close> rewrites the tree that \<^verbatim>\<open>ast.parse\<close> returns. The node
  classes it names are \<^verbatim>\<open>Module\<close>, \<^verbatim>\<open>FunctionDef\<close>, \<^verbatim>\<open>With\<close>, \<^verbatim>\<open>Try\<close>,
  \<^verbatim>\<open>ExceptHandler\<close> (through \<^verbatim>\<open>node.handlers\<close>), \<^verbatim>\<open>Expr\<close>, \<^verbatim>\<open>Import\<close>,
  \<^verbatim>\<open>ImportFrom\<close>, \<^verbatim>\<open>Call\<close>, \<^verbatim>\<open>Str\<close>, \<^verbatim>\<open>Tuple\<close>, \<^verbatim>\<open>Name\<close>, \<^verbatim>\<open>Attribute\<close>,
  \<^verbatim>\<open>alias\<close> and \<^verbatim>\<open>Load\<close>. Each is a constructor below, with the fields of the
  abstract grammar; every other statement class (\<^verbatim>\<open>If\<close>, \<^verbatim>\<open>For\<close>, \<^verbatim>\<open>While\<close>,
  \<^verbatim>\<open>ClassDef\<close>, \<^verbatim>\<open>Assign\<close>, \<^verbatim>\<open>AsyncFunctionDef\<close>, ...) is \<open>OtherStmt\<close> with its class
  name, its expressions and its nested blocks, and every other expression class is
  \<open>OtherExpr\<close>.

  String literals are \<open>Str\<close> nodes, the class the source tests for. \<open>Call\<close> carries
  the two fields \<^verbatim>\<open>kwargs\<close> and \<^verbatim>\<open>starargs\<close> that \<^verbatim>\<open>_build_st_write_call\<close> sets to
  \<^verbatim>\<open>None\<close>. The trees are those of the parser: no node occurs twice in a tree, so
  the in-place updates of the source are modelled by functions that return the new node.

  The position attributes (\<^verbatim>\<open>lineno\<close>, \<^verbatim>\<open>col_offset\<close>) are not part of the model; they
  are the only thing \<^verbatim>\<open>ast.fix_missing_locations\<close> writes.
\<close>

datatype expr_context = Load | Store | Del

datatype expr =
    is_Call: Call (call_func: expr) (call_args: "expr list") (call_keywords: "keyword list")
                  (call_kwargs: "expr option") (call_starargs: "expr option")
  | is_Str: Str (str_s: string)
  | is_Tuple: Tuple (tuple_elts: "expr list") expr_context
  | is_Name: Name (name_id: string) expr_context
  | is_Attribute: Attribute expr string expr_context
  | OtherExpr string "expr list"
and keyword = Keyword "string option" expr

datatype alias_node = Alias string "string option"

datatype arguments = Arguments "string list" "expr list"

datatype stmt =
    FunctionDef string arguments "stmt list" "expr list" "expr option"
  | With "(expr \<times> expr option) list" "stmt list"
  | Try "stmt list" "excepthandler list" "stmt list" "stmt list"
  | is_Expr: Expr (expr_value: expr)
  | Import "alias_node list"
  | ImportFrom "string option" "alias_node list" "int option"
  | OtherStmt string "expr list" "stmt list list"
and excepthandler = ExceptHandler "expr option" "string option" "stmt list"

datatype module = Module (module_body: "stmt list")

text \<open>
  \<^verbatim>\<open>type(tree)\<close> for the nodes that own a statement sequence the pass walks, and
  the attribute that holds the sequence.
\<close>

datatype node_type = Module_t | FunctionDef_t | With_t | Try_t | ExceptHandler_t

datatype body_attr = Body | Finalbody

section \<open>The synthetic nodes\<close>

definition build_st_import_statement :: stmt where
  "build_st_import_statement = Import [Alias ''streamlit'' (Some ''__streamlit__'')]"

definition build_st_write_call :: "expr list \<Rightarrow> expr" where
  "build_st_write_call nodes =
     Call (Attribute (Name ''__streamlit__'' Load) ''_transparent_write'' Load)
          nodes [] None None"

section \<open>The classifier\<close>

text \<open>
  \<^verbatim>\<open>_get_st_write_from_expr(node, i, parent_type)\<close>. Its only caller passes an
  \<^verbatim>\<open>ast.Expr\<close> node and the function reads nothing of it but \<^verbatim>\<open>node.value\<close>, which
  is the first argument here. \<open>None\<close> is Python's \<^verbatim>\<open>None\<close>.
\<close>

definition get_st_write_from_expr :: "expr \<Rightarrow> nat \<Rightarrow> node_type \<Rightarrow> expr option" where
  "get_st_write_from_expr v i parent_type =
     (if is_Call v then None
      else if i = 0 \<and> is_Str v \<and> (parent_type = FunctionDef_t \<or> parent_type = Module_t)
        then None
      else if is_Tuple v then Some (build_st_write_call (tuple_elts v))
      else if is_Str v then Some (build_st_write_call [v])
      else if is_Name v then Some (build_st_write_call [Str (''**'' @ name_id v @ ''**''), v])
      else Some (build_st_write_call [v]))"

section \<open>The walker\<close>

text \<open>
  The loop \<^verbatim>\<open>for i, node in enumerate(body)\<close> of \<^verbatim>\<open>_modify_ast_subtree\<close> is
  \<open>modify_body\<close>, started at index 0, and one turn of it is \<open>modify_node\<close>. A nested call
  \<^verbatim>\<open>_modify_ast_subtree(node, body_attr)\<close> reads and writes only the sequence
  \<^verbatim>\<open>getattr(node, body_attr)\<close> and returns \<^verbatim>\<open>node\<close>, so it is the loop on that field
  with \<^verbatim>\<open>type(node)\<close> as the parent type. The lets of the \<open>Try\<close> case follow the
  source's three steps: the loop over \<^verbatim>\<open>node.handlers\<close>, the call on \<^verbatim>\<open>finalbody\<close>
  and the call on \<^verbatim>\<open>body\<close>; \<^verbatim>\<open>orelse\<close> is not visited.
\<close>

fun modify_body :: "node_type \<Rightarrow> nat \<Rightarrow> stmt list \<Rightarrow> stmt list"
  and modify_node :: "node_type \<Rightarrow> nat \<Rightarrow> stmt \<Rightarrow> stmt"
  and modify_handlers :: "excepthandler list \<Rightarrow> excepthandler list"
  and modify_handler :: "excepthandler \<Rightarrow> excepthandler"
where
  "modify_body parent_type i [] = []"
| "modify_body parent_type i (node # rest) =
     modify_node parent_type i node # modify_body parent_type (i + 1) rest"
| "modify_node parent_type i (FunctionDef name ar b decos ret) =
     FunctionDef name ar (modify_body FunctionDef_t 0 b) decos ret"
| "modify_node parent_type i (With items b) = With items (modify_body With_t 0 b)"
| "modify_node parent_type i (Try b hs orelse fb) =
     (let hs' = modify_handlers hs;
          fb' = modify_body Try_t 0 fb;
          b' = modify_body Try_t 0 b
      in Try b' hs' orelse fb')"
| "modify_node parent_type i (Expr v) =
     (case get_st_write_from_expr v i parent_type of
        None \<Rightarrow> Expr v
      | Some value' \<Rightarrow> Expr value')"
| "modify_node parent_type i node = node"
| "modify_handlers [] = []"
| "modify_handlers (inner_node # rest) = modify_handler inner_node # modify_handlers rest"
| "modify_handler (ExceptHandler ty name b) =
     ExceptHandler ty name (modify_body ExceptHandler_t 0 b)"

text \<open>
  \<^verbatim>\<open>ast.fix_missing_locations(tree)\<close> fills in position attributes and nothing else;
  on trees without position attributes it is the identity, which is why the nested
  calls above leave it out.
\<close>

definition fix_missing_locations :: "module \<Rightarrow> module" where
  "fix_missing_locations tree = tree"

section \<open>The import injector\<close>

text \<open>\<^verbatim>\<open>xs.insert(i, x)\<close> for an index \<open>i \<ge> 0\<close>: past the end it appends.\<close>

definition list_insert :: "nat \<Rightarrow> 'a \<Rightarrow> 'a list \<Rightarrow> 'a list" where
  "list_insert i x xs = take i xs @ x # drop i xs"

text \<open>\<^verbatim>\<open>type(node) in (ast.ImportFrom, ast.Import)\<close>\<close>

fun is_import :: "stmt \<Rightarrow> bool" where
  "is_import (ImportFrom m names level) = True"
| "is_import (Import names) = True"
| "is_import node = False"

definition insert_import_statement :: "module \<Rightarrow> module" where
  "insert_import_statement tree =
     (let st_import = build_st_import_statement;
          b = module_body tree
      in if b \<noteq> [] \<and> is_import (b ! 0) then Module (list_insert 1 st_import b)
         else if length b > 1
                 \<and> (is_Expr (b ! 0) \<and> is_Str (expr_value (b ! 0)))
                 \<and> is_import (b ! 1)
           then Module (list_insert 2 st_import b)
         else Module (list_insert 0 st_import b))"

section \<open>The pass and its entry point\<close>

text \<open>
  \<^verbatim>\<open>_modify_ast_subtree(tree, is_root=...)\<close> on the module node, where \<^verbatim>\<open>body_attr\<close>
  is \<^verbatim>\<open>'body'\<close>.
\<close>

definition modify_ast_subtree :: "module \<Rightarrow> bool \<Rightarrow> module" where
  "modify_ast_subtree tree is_root =
     (let tree = Module (modify_body Module_t 0 (module_body tree));
          tree = (if is_root then insert_import_statement tree else tree)
      in fix_missing_locations tree)"

text \<open>
  \<^verbatim>\<open>add_magic(code, script_path)\<close> returns a tree or, unchanged, the source text.
  \<^verbatim>\<open>compatibility.is_running_py3()\<close> and \<^verbatim>\<open>ast.parse\<close> are not code of
  \<^verbatim>\<open>magic.py\<close>: the first is the parameter \<open>is_running_py3\<close>, the second the
  parameter \<open>parse\<close>, which takes source, file name and mode and either raises
  (\<open>Inl\<close>) or returns a module.
\<close>

datatype magic_result = Tree module | Code string

definition add_magic ::
  "(string \<Rightarrow> string \<Rightarrow> string \<Rightarrow> 'e + module) \<Rightarrow> bool \<Rightarrow> string \<Rightarrow> string \<Rightarrow> 'e + magic_result"
where
  "add_magic parse is_running_py3 code script_path =
     (if is_running_py3
      then (case parse code script_path ''exec'' of
              Inl err \<Rightarrow> Inl err
            | Inr tree \<Rightarrow> Inr (Tree (modify_ast_subtree tree True)))
      else Inr (Code code))"

section \<open>The walker with its calls recorded\<close>

text \<open>
  The same loop, returning beside the new sequence the calls it makes, in the order it
  makes them: \<open>Subtree t a\<close> for a nested call \<^verbatim>\<open>_modify_ast_subtree(node, a)\<close> on a
  node of type \<open>t\<close>, and \<open>Classify v i t\<close> for a call
  \<^verbatim>\<open>_get_st_write_from_expr(node, i, parent_type=t)\<close> with \<^verbatim>\<open>node.value\<close> equal to \<open>v\<close>.
\<close>

datatype event = Subtree node_type body_attr | Classify expr nat node_type

fun modify_body_traced :: "node_type \<Rightarrow> nat \<Rightarrow> stmt list \<Rightarrow> stmt list \<times> event list"
  and modify_node_traced :: "node_type \<Rightarrow> nat \<Rightarrow> stmt \<Rightarrow> stmt \<times> event list"
  and modify_handlers_traced :: "excepthandler list \<Rightarrow> excepthandler list \<times> event list"
  and modify_handler_traced :: "excepthandler \<Rightarrow> excepthandler \<times> event list"
where
  "modify_body_traced parent_type i [] = ([], [])"
| "modify_body_traced parent_type i (node # rest) =
     (let (node', tr1) = modify_node_traced parent_type i node;
          (rest', tr2) = modify_body_traced parent_type (i + 1) rest
      in (node' # rest', tr1 @ tr2))"
| "modify_node_traced parent_type i (FunctionDef name ar b decos ret) =
     (let (b', tr) = modify_body_traced FunctionDef_t 0 b
      in (FunctionDef name ar b' decos ret, Subtree FunctionDef_t Body # tr))"
| "modify_node_traced parent_type i (With items b) =
     (let (b', tr) = modify_body_traced With_t 0 b
      in (With items b', Subtree With_t Body # tr))"
| "modify_node_traced parent_type i (Try b hs orelse fb) =
     (let (hs', tr1) = modify_handlers_traced hs;
          (fb', tr2) = modify_body_traced Try_t 0 fb;
          (b', tr3) = modify_body_traced Try_t 0 b
      in (Try b' hs' orelse fb',
          tr1 @ Subtree Try_t Finalbody # tr2 @ Subtree Try_t Body # tr3))"
| "modify_node_traced parent_type i (Expr v) =
     (case get_st_write_from_expr v i parent_type of
        None \<Rightarrow> (Expr v, [Classify v i parent_type])
      | Some value' \<Rightarrow> (Expr value', [Classify v i parent_type]))"
| "modify_node_traced parent_type i node = (node, [])"
| "modify_handlers_traced [] = ([], [])"
| "modify_handlers_traced (inner_node # rest) =
     (let (inner_node', tr1) = modify_handler_traced inner_node;
          (rest', tr2) = modify_handlers_traced rest
      in (inner_node' # rest', tr1 @ tr2))"
| "modify_handler_traced (ExceptHandler ty name b) =
     (let (b', tr) = modify_body_traced ExceptHandler_t 0 b
      in (ExceptHandler ty name b', Subtree ExceptHandler_t Body # tr))"

section \<open>Notions used to state the properties\<close>

text \<open>
  The frame of a statement: the statement with the payload of every expression statement
  of a walked sequence replaced by one fixed expression. Two sequences with the same
  frames have the same length and, index by index, the same statements up to those
  payloads; sequences the walker does not enter (\<^verbatim>\<open>orelse\<close>, the blocks of other
  statements) are kept whole.
\<close>

definition blank :: expr where
  "blank = OtherExpr [] []"

fun frame :: "stmt \<Rightarrow> stmt"
  and frame_handler :: "excepthandler \<Rightarrow> excepthandler"
where
  "frame (FunctionDef name ar b decos ret) = FunctionDef name ar (map frame b) decos ret"
| "frame (With items b) = With items (map frame b)"
| "frame (Try b hs orelse fb) = Try (map frame b) (map frame_handler hs) orelse (map frame fb)"
| "frame (Expr v) = Expr blank"
| "frame node = node"
| "frame_handler (ExceptHandler ty name b) = ExceptHandler ty name (map frame b)"

text \<open>
  The branch of \<^verbatim>\<open>_get_st_write_from_expr\<close> that is taken, numbered as the rules of
  the specification: the same chain of tests as in \<open>get_st_write_from_expr\<close>.
\<close>

datatype rule = Rule1 | Rule2 | Rule3 | Rule4 | Rule5 | Rule6

definition rule_taken :: "expr \<Rightarrow> nat \<Rightarrow> node_type \<Rightarrow> rule" where
  "rule_taken v i parent_type =
     (if is_Call v then Rule1
      else if i = 0 \<and> is_Str v \<and> (parent_type = FunctionDef_t \<or> parent_type = Module_t)
        then Rule2
      else if is_Tuple v then Rule3
      else if is_Str v then Rule4
      else if is_Name v then Rule5
      else Rule6)"

text \<open>What each branch returns.\<close>

fun rule_result :: "rule \<Rightarrow> expr \<Rightarrow> expr option" where
  "rule_result Rule1 v = None"
| "rule_result Rule2 v = None"
| "rule_result Rule3 v = Some (build_st_write_call (tuple_elts v))"
| "rule_result Rule4 v = Some (build_st_write_call [v])"
| "rule_result Rule5 v = Some (build_st_write_call [Str (''**'' @ name_id v @ ''**''), v])"
| "rule_result Rule6 v = Some (build_st_write_call [v])"

text \<open>
  The specification's table: the rule as a function of the expression's kind, the index
  and the kind of the owning node.
\<close>

datatype expr_kind = Call_kind | StringLiteral_kind | Tuple_kind | Identifier_kind | Other_kind

fun kind_of :: "expr \<Rightarrow> expr_kind" where
  "kind_of (Call f as ks kw st) = Call_kind"
| "kind_of (Str s) = StringLiteral_kind"
| "kind_of (Tuple es c) = Tuple_kind"
| "kind_of (Name n c) = Identifier_kind"
| "kind_of e = Other_kind"

fun spec_rule :: "expr_kind \<Rightarrow> nat \<Rightarrow> node_type \<Rightarrow> rule" where
  "spec_rule Call_kind i owner = Rule1"
| "spec_rule StringLiteral_kind i owner =
     (if i = 0 \<and> (owner = FunctionDef_t \<or> owner = Module_t) then Rule2 else Rule4)"
| "spec_rule Tuple_kind i owner = Rule3"
| "spec_rule Identifier_kind i owner = Rule5"
| "spec_rule Other_kind i owner = Rule6"

text \<open>
  The insertion index as the specification's policy words it: 1 after a leading
  import-family statement; 2 after a leading string-literal expression statement that is
  followed by an import-family statement; 0 otherwise.
\<close>

fun spec_import_index :: "stmt list \<Rightarrow> nat" where
  "spec_import_index [] = 0"
| "spec_import_index (first # rest) =
     (if is_import first then 1
      else (case (first, rest) of
              (Expr (Str s), second # others) \<Rightarrow> if is_import second then 2 else 0
            | other \<Rightarrow> 0))"

section \<open>The loop as an indexed map\<close>

lemma modify_handlers_map: "modify_handlers hs = map modify_handler hs"
  by (induction hs) simp_all

lemma length_modify_body: "length (modify_body p i xs) = length xs"
  by (induction xs arbitrary: i) simp_all

lemma modify_body_nth:
  "j < length xs \<Longrightarrow> modify_body p i xs ! j = modify_node p (i + j) (xs ! j)"
proof (induction xs arbitrary: i j)
  case Nil
  then show ?case by simp
next
  case (Cons x xs)
  show ?case
  proof (cases j)
    case 0
    then show ?thesis by simp
  next
    case (Suc k)
    with Cons.prems have "k < length xs" by simp
    from Cons.IH [OF this, of "i + 1"] Suc show ?thesis by simp
  qed
qed

lemma modify_body_enumerate:
  "modify_body p i xs = map (\<lambda>(j, node). modify_node p j node) (zip [i..<i + length xs] xs)"
proof (induction xs arbitrary: i)
  case Nil
  show ?case by simp
next
  case (Cons x xs)
  have "[i..<i + length (x # xs)] = i # [Suc i..<Suc i + length xs]"
    using upt_conv_Cons [of i "i + length (x # xs)"] by simp
  with Cons.IH [of "Suc i"] show ?case by simp
qed

lemma frame_modify:
  "map frame (modify_body p i xs) = map frame xs"
  "frame (modify_node p i s) = frame s"
  "map frame_handler (modify_handlers hs) = map frame_handler hs"
  "frame_handler (modify_handler h) = frame_handler h"
  by (induction p i xs and p i s and hs and h
      rule: modify_body_modify_node_modify_handlers_modify_handler.induct)
     (simp_all add: Let_def split: option.splits)

lemma traced_fst:
  "fst (modify_body_traced p i xs) = modify_body p i xs"
  "fst (modify_node_traced p i s) = modify_node p i s"
  "fst (modify_handlers_traced hs) = modify_handlers hs"
  "fst (modify_handler_traced h) = modify_handler h"
  by (induction p i xs and p i s and hs and h
      rule: modify_body_modify_node_modify_handlers_modify_handler.induct)
     (simp_all add: Let_def case_prod_beta split: option.splits)

lemma modify_handlers_traced_snd:
  "snd (modify_handlers_traced hs) = concat (map (\<lambda>h. snd (modify_handler_traced h)) hs)"
  by (induction hs) (simp_all add: case_prod_beta)

section \<open>The import injector\<close>

lemma spec_import_index_le: "spec_import_index b \<le> length b"
  by (cases b) (auto split: stmt.splits expr.splits list.splits)

lemma insert_import_statement_eq:
  "module_body (insert_import_statement (Module b)) =
     list_insert (spec_import_index b) build_st_import_statement b"
  by (cases b)
     (auto simp: insert_import_statement_def Let_def split: stmt.splits expr.splits list.splits)

text \<open>
  Claim C1. The import injector puts the synthetic import into the root sequence at
  index 1 when the first statement is an import-family statement, at index 2 when there
  are at least two statements, the first a string-literal expression statement and the
  second an import-family statement, and at index 0 in every other case, the empty
  sequence included. One statement is inserted: the result is the old sequence with the
  import at that index, one longer.
\<close>

theorem insert_import_statement_position:
  "module_body (insert_import_statement (Module b)) =
     take (spec_import_index b) b @ build_st_import_statement # drop (spec_import_index b) b
   \<and> spec_import_index b \<le> length b
   \<and> module_body (insert_import_statement (Module b)) ! spec_import_index b
       = build_st_import_statement
   \<and> length (module_body (insert_import_statement (Module b))) = length b + 1
   \<and> spec_import_index b =
       (if b \<noteq> [] \<and> is_import (b ! 0) then 1
        else if 2 \<le> length b \<and> is_Expr (b ! 0) \<and> is_Str (expr_value (b ! 0)) \<and> is_import (b ! 1)
          then 2
        else 0)"
proof -
  let ?k = "spec_import_index b"
  have le: "?k \<le> length b" by (rule spec_import_index_le)
  have eq: "module_body (insert_import_statement (Module b)) =
     take ?k b @ build_st_import_statement # drop ?k b"
    by (simp add: insert_import_statement_eq list_insert_def)
  have nth: "(take ?k b @ build_st_import_statement # drop ?k b) ! ?k = build_st_import_statement"
    using le by (simp add: nth_append)
  have idx: "?k = (if b \<noteq> [] \<and> is_import (b ! 0) then 1
        else if 2 \<le> length b \<and> is_Expr (b ! 0) \<and> is_Str (expr_value (b ! 0)) \<and> is_import (b ! 1)
          then 2
        else 0)"
    by (cases b) (auto split: stmt.splits expr.splits list.splits)
  show ?thesis using le eq nth idx by simp
qed

text \<open>
  The three cases on concrete roots: a \<^verbatim>\<open>from __future__ import\<close> before a call,
  a docstring before an import, and the empty module.
\<close>

theorem insert_import_statement_position_witness:
  "module_body (insert_import_statement (Module
      [ImportFrom (Some ''__future__'') [Alias ''annotations'' None] (Some 0),
       Expr (Call (Name ''print'' Load) [OtherExpr ''Num'' []] [] None None)]))
     = [ImportFrom (Some ''__future__'') [Alias ''annotations'' None] (Some 0),
        Import [Alias ''streamlit'' (Some ''__streamlit__'')],
        Expr (Call (Name ''print'' Load) [OtherExpr ''Num'' []] [] None None)]
   \<and> module_body (insert_import_statement (Module
      [Expr (Str ''doc''), Import [Alias ''os'' None], Expr (Name ''x'' Load)]))
     = [Expr (Str ''doc''), Import [Alias ''os'' None],
        Import [Alias ''streamlit'' (Some ''__streamlit__'')], Expr (Name ''x'' Load)]
   \<and> module_body (insert_import_statement (Module []))
     = [Import [Alias ''streamlit'' (Some ''__streamlit__'')]]"
  using insert_import_statement_position
      [of "[ImportFrom (Some ''__future__'') [Alias ''annotations'' None] (Some 0),
            Expr (Call (Name ''print'' Load) [OtherExpr ''Num'' []] [] None None)]"]
    insert_import_statement_position
      [of "[Expr (Str ''doc''), Import [Alias ''os'' None], Expr (Name ''x'' Load)]"]
    insert_import_statement_position [of "[]"]
  by (simp add: build_st_import_statement_def)

section \<open>The walker keeps every sequence\<close>

text \<open>
  Claim C2. After the pass every walked statement sequence (function bodies, with-bodies,
  try bodies, handler bodies, finally bodies, at any depth) has the same number of
  statements in the same order as before: the loop maps the statement at index \<open>j\<close> to
  the statement at index \<open>j\<close>, and the result has the frames of the input, so only
  payloads of expression statements differ. The handler list keeps its length too. The
  only sequence that changes length is the root, which is the walked root sequence with
  the import put in, one statement longer; without \<^verbatim>\<open>is_root\<close> nothing is put in.
\<close>

theorem statement_count_invariant:
  "map frame (modify_body p i xs) = map frame xs
   \<and> length (modify_body p i xs) = length xs
   \<and> map frame_handler (modify_handlers hs) = map frame_handler hs
   \<and> length (modify_handlers hs) = length hs
   \<and> modify_body p i xs = map (\<lambda>(j, node). modify_node p j node) (zip [i..<i + length xs] xs)
   \<and> length (module_body (modify_ast_subtree (Module xs) True)) = length xs + 1
   \<and> (\<exists>k ys. k \<le> length xs \<and> map frame ys = map frame xs
        \<and> module_body (modify_ast_subtree (Module xs) True)
            = take k ys @ build_st_import_statement # drop k ys)
   \<and> modify_ast_subtree (Module xs) False = Module (modify_body Module_t 0 xs)"
proof -
  let ?ys = "modify_body Module_t 0 xs"
  let ?k = "spec_import_index ?ys"
  have root: "module_body (modify_ast_subtree (Module xs) True)
      = take ?k ?ys @ build_st_import_statement # drop ?k ?ys"
    by (simp add: modify_ast_subtree_def fix_missing_locations_def
        insert_import_statement_eq list_insert_def)
  have k: "?k \<le> length xs"
    using spec_import_index_le [of ?ys] by (simp add: length_modify_body)
  have fr: "map frame ?ys = map frame xs" by (rule frame_modify(1))
  have ex: "\<exists>k ys. k \<le> length xs \<and> map frame ys = map frame xs
        \<and> module_body (modify_ast_subtree (Module xs) True)
            = take k ys @ build_st_import_statement # drop k ys"
    using k fr root by blast
  have len: "length (module_body (modify_ast_subtree (Module xs) True)) = length xs + 1"
    using k by (simp add: root length_modify_body)
  have nonroot: "modify_ast_subtree (Module xs) False = Module (modify_body Module_t 0 xs)"
    by (simp add: modify_ast_subtree_def fix_missing_locations_def)
  have lh: "length (modify_handlers hs) = length hs"
    by (simp add: modify_handlers_map)
  show ?thesis
    using frame_modify(1) [of p i xs] frame_modify(3) [of hs] length_modify_body [of p i xs]
      modify_body_enumerate [of p i xs] ex len nonroot lh
    by blast
qed

text \<open>
  On the module \<^verbatim>\<open>x = 1\<close>, \<^verbatim>\<open>x\<close>, \<^verbatim>\<open>def f(): 'doc'; y\<close>: three statements
  become four, and the function body keeps its two.
\<close>

theorem statement_count_invariant_witness:
  "module_body (modify_ast_subtree (Module
      [OtherStmt ''Assign'' [Name ''x'' Store, OtherExpr ''Num'' []] [],
       Expr (Name ''x'' Load),
       FunctionDef ''f'' (Arguments [] []) [Expr (Str ''doc''), Expr (Name ''y'' Load)] [] None])
      True)
   = [Import [Alias ''streamlit'' (Some ''__streamlit__'')],
      OtherStmt ''Assign'' [Name ''x'' Store, OtherExpr ''Num'' []] [],
      Expr (build_st_write_call [Str ''**x**'', Name ''x'' Load]),
      FunctionDef ''f'' (Arguments [] [])
        [Expr (Str ''doc''), Expr (build_st_write_call [Str ''**y**'', Name ''y'' Load])] [] None]
   \<and> length (module_body (modify_ast_subtree (Module
      [OtherStmt ''Assign'' [Name ''x'' Store, OtherExpr ''Num'' []] [],
       Expr (Name ''x'' Load),
       FunctionDef ''f'' (Arguments [] []) [Expr (Str ''doc''), Expr (Name ''y'' Load)] [] None])
      True)) = 3 + 1"
  using statement_count_invariant
      [of Module_t 0
          "[OtherStmt ''Assign'' [Name ''x'' Store, OtherExpr ''Num'' []] [],
            Expr (Name ''x'' Load),
            FunctionDef ''f'' (Arguments [] [])
              [Expr (Str ''doc''), Expr (Name ''y'' Load)] [] None]"
          "[]"]
  by (simp add: modify_ast_subtree_def fix_missing_locations_def insert_import_statement_def
      list_insert_def build_st_import_statement_def get_st_write_from_expr_def)

section \<open>The rules of the classifier\<close>

text \<open>
  Claim C3. For an expression statement whose expression is a \<open>Call\<close> node the
  classifier returns no replacement, whatever the index and the owning node, and the
  pass leaves the statement, its expression included, as it was: one turn of the loop
  returns it, and so does the loop at the statement's index in any walked sequence.
\<close>

theorem call_statement_unchanged:
  "get_st_write_from_expr (Call f as ks kw st) i p = None
   \<and> modify_node p i (Expr (Call f as ks kw st)) = Expr (Call f as ks kw st)
   \<and> (j < length xs \<and> xs ! j = Expr (Call f as ks kw st)
        \<longrightarrow> modify_body p i xs ! j = xs ! j)"
proof -
  have a: "get_st_write_from_expr (Call f as ks kw st) i' p' = None" for i' p'
    by (simp add: get_st_write_from_expr_def)
  have b: "modify_node p' i' (Expr (Call f as ks kw st)) = Expr (Call f as ks kw st)" for i' p'
    by (simp add: a)
  have c: "modify_body p i xs ! j = xs ! j"
    if "j < length xs" "xs ! j = Expr (Call f as ks kw st)"
    using that by (simp add: modify_body_nth a)
  show ?thesis using a b c by blast
qed

theorem call_statement_unchanged_witness:
  "(1::nat) < length [Expr (Name ''x'' Load), Expr (Call (Name ''print'' Load) [] [] None None)]
   \<and> [Expr (Name ''x'' Load), Expr (Call (Name ''print'' Load) [] [] None None)] ! 1
       = Expr (Call (Name ''print'' Load) [] [] None None)
   \<and> modify_body With_t 0
        [Expr (Name ''x'' Load), Expr (Call (Name ''print'' Load) [] [] None None)] ! 1
       = Expr (Call (Name ''print'' Load) [] [] None None)"
  using call_statement_unchanged
      [of "Name ''print'' Load" "[]" "[]" None None 0 With_t 1
          "[Expr (Name ''x'' Load), Expr (Call (Name ''print'' Load) [] [] None None)]"]
  by simp

lemma tuple_not_own_elt: "es \<noteq> [Tuple es c]"
proof
  assume "es = [Tuple es c]"
  then have "size_list size es = size_list size [Tuple es c]" by simp
  then show False by simp
qed

text \<open>
  Claim C4. For an expression statement whose expression is a \<open>Tuple\<close> the pass
  replaces the expression by a display call whose positional arguments are the
  tuple's elements, in order, and not the tuple node as one argument.
\<close>

theorem tuple_statement_rewritten:
  "get_st_write_from_expr (Tuple es c) i p
     = Some (Call (Attribute (Name ''__streamlit__'' Load) ''_transparent_write'' Load)
               es [] None None)
   \<and> modify_node p i (Expr (Tuple es c))
     = Expr (Call (Attribute (Name ''__streamlit__'' Load) ''_transparent_write'' Load)
               es [] None None)
   \<and> call_args (expr_value (modify_node p i (Expr (Tuple es c)))) = es
   \<and> call_args (expr_value (modify_node p i (Expr (Tuple es c)))) \<noteq> [Tuple es c]"
  using tuple_not_own_elt [of es c]
  by (simp add: get_st_write_from_expr_def build_st_write_call_def)

theorem tuple_statement_rewritten_witness:
  "call_args (expr_value (modify_node Module_t 0
      (Expr (Tuple [Name ''a'' Load, Name ''b'' Load, Name ''c'' Load] Load))))
   = [Name ''a'' Load, Name ''b'' Load, Name ''c'' Load]"
  using tuple_statement_rewritten
      [of "[Name ''a'' Load, Name ''b'' Load, Name ''c'' Load]" Load 0 Module_t]
  by simp

text \<open>
  Claim C5. For an expression statement whose expression is a bare identifier \<open>n\<close> the
  pass replaces the expression by a display call with two positional arguments: the
  string literal \<open>**n**\<close> and the identifier expression itself.
\<close>

theorem name_statement_rewritten:
  "get_st_write_from_expr (Name n c) i p
     = Some (Call (Attribute (Name ''__streamlit__'' Load) ''_transparent_write'' Load)
               [Str (''**'' @ n @ ''**''), Name n c] [] None None)
   \<and> modify_node p i (Expr (Name n c))
     = Expr (Call (Attribute (Name ''__streamlit__'' Load) ''_transparent_write'' Load)
               [Str (''**'' @ n @ ''**''), Name n c] [] None None)
   \<and> length (call_args (expr_value (modify_node p i (Expr (Name n c))))) = 2"
  by (simp add: get_st_write_from_expr_def build_st_write_call_def)

theorem name_statement_rewritten_witness:
  "call_args (expr_value (modify_node FunctionDef_t 0 (Expr (Name ''df'' Load))))
   = [Str ''**df**'', Name ''df'' Load]"
  using name_statement_rewritten [of "''df''" Load 0 FunctionDef_t]
  by simp




section \<open>The order of the work on a try statement\<close>

text \<open>
  Claim C7. On a try statement the walker first processes the handler bodies, each
  result stored at its handler's index, then the finally body, and only then the try
  statement's own body; the processed try node is stored at its index in the owning
  sequence. The recorded calls of the walker are those of the handlers, in order,
  followed by the call on \<^verbatim>\<open>finalbody\<close> with what it calls, followed by the call on
  \<^verbatim>\<open>body\<close> with what it calls; the node returned has the three processed fields and
  the old \<^verbatim>\<open>orelse\<close>.
\<close>

theorem try_processing_order:
  "snd (modify_node_traced p i (Try b hs orelse fb))
     = concat (map (\<lambda>h. snd (modify_handler_traced h)) hs)
       @ Subtree Try_t Finalbody # snd (modify_body_traced Try_t 0 fb)
       @ Subtree Try_t Body # snd (modify_body_traced Try_t 0 b)
   \<and> fst (modify_node_traced p i (Try b hs orelse fb)) = modify_node p i (Try b hs orelse fb)
   \<and> modify_node p i (Try b hs orelse fb)
     = Try (modify_body Try_t 0 b) (map modify_handler hs) orelse (modify_body Try_t 0 fb)
   \<and> length (map modify_handler hs) = length hs
   \<and> modify_body q k (pre @ Try b hs orelse fb # post) ! length pre
     = modify_node q (k + length pre) (Try b hs orelse fb)"
proof -
  have tr: "snd (modify_node_traced p i (Try b hs orelse fb))
     = concat (map (\<lambda>h. snd (modify_handler_traced h)) hs)
       @ Subtree Try_t Finalbody # snd (modify_body_traced Try_t 0 fb)
       @ Subtree Try_t Body # snd (modify_body_traced Try_t 0 b)"
    by (simp add: case_prod_beta modify_handlers_traced_snd)
  have res: "modify_node p i (Try b hs orelse fb)
     = Try (modify_body Try_t 0 b) (map modify_handler hs) orelse (modify_body Try_t 0 fb)"
    by (simp add: modify_handlers_map)
  have idx: "modify_body q k (pre @ Try b hs orelse fb # post) ! length pre
     = modify_node q (k + length pre) (Try b hs orelse fb)"
    using modify_body_nth [of "length pre" "pre @ Try b hs orelse fb # post" q k] by simp
  show ?thesis using tr res idx traced_fst(2) [of p i "Try b hs orelse fb"] by simp
qed

text \<open>
  On \<^verbatim>\<open>try: a\<close>, \<^verbatim>\<open>except: b\<close>, \<^verbatim>\<open>else: d\<close>, \<^verbatim>\<open>finally: c\<close> the
  classifier sees \<open>b\<close>, then \<open>c\<close>, then \<open>a\<close>, and never \<open>d\<close>.
\<close>

theorem try_processing_order_witness:
  "snd (modify_node_traced Module_t 0
      (Try [Expr (Name ''a'' Load)]
           [ExceptHandler None None [Expr (Name ''b'' Load)]]
           [Expr (Name ''d'' Load)]
           [Expr (Name ''c'' Load)]))
   = [Subtree ExceptHandler_t Body, Classify (Name ''b'' Load) 0 ExceptHandler_t,
      Subtree Try_t Finalbody, Classify (Name ''c'' Load) 0 Try_t,
      Subtree Try_t Body, Classify (Name ''a'' Load) 0 Try_t]"
  using try_processing_order
      [of Module_t 0 "[Expr (Name ''a'' Load)]"
          "[ExceptHandler None None [Expr (Name ''b'' Load)]]"
          "[Expr (Name ''d'' Load)]" "[Expr (Name ''c'' Load)]"]
  by (simp add: get_st_write_from_expr_def)

section \<open>Classification reads the shape and nothing else\<close>

lemma rule_taken_spec: "rule_taken v i p = spec_rule (kind_of v) i p"
  by (cases v) (auto simp: rule_taken_def)

lemma get_st_write_rule: "get_st_write_from_expr v i p = rule_result (rule_taken v i p) v"
  by (simp add: get_st_write_from_expr_def rule_taken_def)

text \<open>
  Claim C8. Which rule of the classifier applies is a function of the expression, its
  index and the kind of the owning node, and of nothing else: it is the rule the
  specification's table gives for the expression's kind, the index and the owner, so two
  expressions of one kind get the same rule at the same index under the same owner, and
  two invocations on equal arguments agree on the rule and on the result.
\<close>

theorem classification_pure:
  "rule_taken v i p = spec_rule (kind_of v) i p
   \<and> get_st_write_from_expr v i p = rule_result (rule_taken v i p) v
   \<and> (kind_of v = kind_of v' \<longrightarrow> rule_taken v i p = rule_taken v' i p)
   \<and> (v = v' \<and> i = i' \<and> p = p' \<longrightarrow>
        rule_taken v i p = rule_taken v' i' p'
        \<and> get_st_write_from_expr v i p = get_st_write_from_expr v' i' p')"
  using rule_taken_spec [of v i p] rule_taken_spec [of v' i p] get_st_write_rule [of v i p]
  by auto

theorem classification_pure_witness:
  "kind_of (Name ''x'' Load) = kind_of (Name ''y'' Store)
   \<and> rule_taken (Name ''x'' Load) 3 With_t = rule_taken (Name ''y'' Store) 3 With_t
   \<and> rule_taken (Name ''x'' Load) 3 With_t = Rule5"
  using classification_pure [of "Name ''x'' Load" 3 With_t "Name ''y'' Store" 3 With_t]
  by (simp add: rule_taken_def)

section \<open>The entry point\<close>

text \<open>
  Claim C9. When the runtime is not Python 3, \<^verbatim>\<open>add_magic\<close> returns the source
  text it was given, a string and not a tree, whatever the parser would do: nothing is
  parsed and nothing rewritten. Under Python 3 it parses the source and returns the
  tree of the root pass, the walked module with the import put in; a parser error is
  passed on.
\<close>

theorem add_magic_py3_gate:
  "add_magic parse False code script_path = Inr (Code code)
   \<and> add_magic parse False code script_path = add_magic parse' False code script_path
   \<and> add_magic parse True code script_path
     = (case parse code script_path ''exec'' of
          Inl err \<Rightarrow> Inl err
        | Inr tree \<Rightarrow> Inr (Tree (modify_ast_subtree tree True)))
   \<and> (parse code script_path ''exec'' = Inr tree \<longrightarrow>
        add_magic parse True code script_path
          = Inr (Tree (Module (module_body (insert_import_statement
                  (Module (modify_body Module_t 0 (module_body tree))))))))"
  by (auto simp: add_magic_def modify_ast_subtree_def fix_missing_locations_def)

text \<open>A parser that returns the module of the one statement \<^verbatim>\<open>x\<close>.\<close>

theorem add_magic_py3_gate_witness:
  "(\<lambda>src file mode. Inr (Module [Expr (Name ''x'' Load)]) :: unit + module) ''x'' ''s.py'' ''exec''
     = Inr (Module [Expr (Name ''x'' Load)])
   \<and> add_magic (\<lambda>src file mode. Inr (Module [Expr (Name ''x'' Load)]) :: unit + module)
        True ''x'' ''s.py''
     = Inr (Tree (Module [Import [Alias ''streamlit'' (Some ''__streamlit__'')],
                          Expr (build_st_write_call [Str ''**x**'', Name ''x'' Load])]))
   \<and> add_magic (\<lambda>src file mode. Inr (Module [Expr (Name ''x'' Load)]) :: unit + module)
        False ''x'' ''s.py''
     = Inr (Code ''x'')"
  using add_magic_py3_gate
      [of "\<lambda>src file mode. Inr (Module [Expr (Name ''x'' Load)]) :: unit + module"
          "''x''" "''s.py''"
          "\<lambda>src file mode. Inr (Module [Expr (Name ''x'' Load)]) :: unit + module"
          "Module [Expr (Name ''x'' Load)]"]
  by (simp add: add_magic_def modify_ast_subtree_def fix_missing_locations_def
      insert_import_statement_def list_insert_def build_st_import_statement_def
      get_st_write_from_expr_def)

section \<open>The names the injector and the rewriter share\<close>

text \<open>
  Claim C10. The statement the injector inserts imports the module \<open>streamlit\<close> under
  the alias \<open>__streamlit__\<close>, and every call the rewriter builds, so every replacement
  the classifier returns, calls the attribute \<open>_transparent_write\<close> of a name node with
  that same identifier \<open>__streamlit__\<close>, with an empty keyword list.
\<close>

theorem naming_contract:
  "build_st_import_statement = Import [Alias ''streamlit'' (Some ''__streamlit__'')]
   \<and> module_body (insert_import_statement (Module b)) ! spec_import_index b
     = Import [Alias ''streamlit'' (Some ''__streamlit__'')]
   \<and> build_st_write_call nodes
     = Call (Attribute (Name ''__streamlit__'' Load) ''_transparent_write'' Load)
         nodes [] None None
   \<and> (get_st_write_from_expr v i p = Some c \<longrightarrow>
        is_Call c
        \<and> call_func c = Attribute (Name ''__streamlit__'' Load) ''_transparent_write'' Load
        \<and> call_keywords c = [])"
proof -
  have le: "spec_import_index b \<le> length b" by (rule spec_import_index_le)
  have imp: "module_body (insert_import_statement (Module b)) ! spec_import_index b
     = Import [Alias ''streamlit'' (Some ''__streamlit__'')]"
    using le
    by (simp add: insert_import_statement_eq list_insert_def nth_append
        build_st_import_statement_def)
  have call: "is_Call c
        \<and> call_func c = Attribute (Name ''__streamlit__'' Load) ''_transparent_write'' Load
        \<and> call_keywords c = []"
    if "get_st_write_from_expr v i p = Some c"
    using that
    by (auto simp: get_st_write_from_expr_def build_st_write_call_def split: if_splits)
  show ?thesis
    using imp call by (simp add: build_st_import_statement_def build_st_write_call_def)
qed

theorem naming_contract_witness:
  "get_st_write_from_expr (Str ''hello'') 2 Module_t
     = Some (Call (Attribute (Name ''__streamlit__'' Load) ''_transparent_write'' Load)
               [Str ''hello''] [] None None)
   \<and> call_func (Call (Attribute (Name ''__streamlit__'' Load) ''_transparent_write'' Load)
               [Str ''hello''] [] None None)
       = Attribute (Name ''__streamlit__'' Load) ''_transparent_write'' Load
   \<and> call_keywords (Call (Attribute (Name ''__streamlit__'' Load) ''_transparent_write'' Load)
               [Str ''hello''] [] None None) = []"
  using naming_contract
      [of "[]" "[]" "Str ''hello''" 2 Module_t
          "Call (Attribute (Name ''__streamlit__'' Load) ''_transparent_write'' Load)
             [Str ''hello''] [] None None"]
  by (simp add: get_st_write_from_expr_def build_st_write_call_def)

end
